theory Spec2Isabelle
  imports Main "HOL-Library.Word"
begin

section \<open>The ChibiOS adapter of the OS abstraction layer (osal\_chibios.h)\<close>

text \<open>
  The header wraps three kernel objects: the counting semaphore, which also serves as the
  mutex, and the objects FIFO (a guarded memory pool plus a mailbox) that carries the
  queue. Each C function is a HOL function from the machine state to an outcome. A C
  pointer is an address, a struct a record, and a struct member or local variable that no
  statement has assigned is \<open>None\<close>: reading it is a fault, as is every other use the
  C standard leaves undefined.
\<close>

subsection \<open>Values and kernel objects\<close>

type_synonym addr = nat
type_synonym byte = "8 word"
type_synonym msg_t = "32 word"

text \<open>
  Modelled from the spec: the kernel header \<^verbatim>\<open>ch.h\<close> is not part of the sources, so
  the status codes of a kernel wait are taken from the boundary the spec describes
  (success, timeout, forced reset). Success is zero, the two failures are not, which is
  what the conversion of a status to \<^verbatim>\<open>bool\<close> in the adapter depends on.
\<close>

definition MSG_OK :: msg_t where
  "MSG_OK = 0"

definition MSG_TIMEOUT :: msg_t where
  "MSG_TIMEOUT = - 1"

definition MSG_RESET :: msg_t where
  "MSG_RESET = - 2"

text \<open>
  The configuration that the missing headers fix: the kernel's interval type
  \<^verbatim>\<open>sysinterval_t\<close> is the type \<open>'i\<close>, a word of some width wherever a function
  converts it, and the two time constants and the sentinel of the OSAL are parameters of
  every function below.
\<close>

record 'i chconf =
  TIME_INFINITE :: 'i
  TIME_MS2I :: "32 word \<Rightarrow> 'i"
  OSAL_TIMEOUT_WAIT_FOREVER :: "32 word"

record semaphore_t =
  cnt :: int

record objects_fifo_t =
  objsize :: nat
  pool_buf :: addr
  mbx_buf :: addr
  objs :: "byte list list"
  free :: "nat list"
  mbx :: "nat list"
  mbsize :: nat

text \<open>
  The machine state: the initialised semaphores and FIFOs by the address of their control
  block, the memory cells that hold an object pointer, and the system lock.
\<close>

record state =
  sems :: "addr \<rightharpoonup> semaphore_t"
  fifos :: "addr \<rightharpoonup> objects_fifo_t"
  cells :: "addr \<rightharpoonup> nat option"
  syslocked :: bool

datatype fault = Indeterminate_Value | Invalid_Object | Null_Pointer | Out_Of_Bounds

text \<open>
  A call returns a value and the next state, never returns because the calling thread stays
  suspended, or has no defined behaviour.
\<close>

datatype 'a outcome = Returns 'a state | Suspended | Fault fault

definition and_then :: "'a outcome \<Rightarrow> ('a \<Rightarrow> state \<Rightarrow> 'b outcome) \<Rightarrow> 'b outcome" where
  "and_then m k = (case m of Returns x st \<Rightarrow> k x st | Suspended \<Rightarrow> Suspended | Fault e \<Rightarrow> Fault e)"

definition rd :: "'a option \<Rightarrow> state \<Rightarrow> 'a outcome" where
  \<comment> \<open>reading a member or a local: indeterminate until assigned\<close>
  "rd v st = (case v of None \<Rightarrow> Fault Indeterminate_Value | Some x \<Rightarrow> Returns x st)"

text \<open>
  What the other threads and interrupt handlers do to a semaphore while the caller of a
  wait is suspended on it.
\<close>

datatype wakeup = Quiet | Signalled | Reset_To int

subsection \<open>Kernel calls on semaphores\<close>

text \<open>
  Modelled from the spec: the kernel's \<^verbatim>\<open>chSemObjectInit\<close> is not part of the sources.
  Create "initializes the underlying counting primitive" with the given capacity.
\<close>

definition chSemObjectInit :: "addr \<Rightarrow> int \<Rightarrow> state \<Rightarrow> unit outcome" where
  "chSemObjectInit sp n st = Returns () (st\<lparr>sems := (sems st)(sp \<mapsto> \<lparr>cnt = n\<rparr>)\<rparr>)"

text \<open>
  Modelled from the spec: the kernel's \<^verbatim>\<open>chSemWaitTimeout\<close> is not part of the sources.
  Wait "blocks the calling thread until the count is non-zero or the timeout elapses": a
  positive count is taken at once; otherwise the caller sleeps and is woken by a signal
  (success), by a reset ("releasing any waiters with a failure status") or by the end of a
  finite timeout, and with the infinite timeout and no wake-up it never returns.
\<close>

definition chSemWaitTimeout ::
  "'i chconf \<Rightarrow> addr \<Rightarrow> 'i \<Rightarrow> wakeup \<Rightarrow> state \<Rightarrow> msg_t outcome" where
  "chSemWaitTimeout cf sp timeout env st =
     (case sems st sp of
        None \<Rightarrow> Fault Invalid_Object
      | Some s \<Rightarrow>
          if 0 < cnt s
          then Returns MSG_OK (st\<lparr>sems := (sems st)(sp \<mapsto> s\<lparr>cnt := cnt s - 1\<rparr>)\<rparr>)
          else (case env of
                  Signalled \<Rightarrow> Returns MSG_OK st
                | Reset_To n \<Rightarrow> Returns MSG_RESET (st\<lparr>sems := (sems st)(sp \<mapsto> s\<lparr>cnt := n\<rparr>)\<rparr>)
                | Quiet \<Rightarrow>
                    if timeout = TIME_INFINITE cf then Suspended
                    else Returns MSG_TIMEOUT st))"

subsection \<open>Semaphore API\<close>

record osal_semaphore_def_t =
  def_size :: "16 word"
  def_sem :: addr  \<comment> \<open>where the embedded \<^verbatim>\<open>semaphore_t sem\<close> lives: \<^verbatim>\<open>&semdef->sem\<close>\<close>

record osal_semaphore_t =
  hdl_size :: "16 word option"
  hdl_sem :: "addr option"

definition osal_semaphore_create :: "osal_semaphore_def_t \<Rightarrow> state \<Rightarrow> osal_semaphore_t outcome" where
  "osal_semaphore_create semdef st =
     (let s = \<lparr>hdl_size = None, hdl_sem = None\<rparr>;
          s = s\<lparr>hdl_size := Some (def_size semdef)\<rparr>;
          s = s\<lparr>hdl_sem := Some (def_sem semdef)\<rparr>
      in and_then (rd (hdl_sem s) st) (\<lambda>p st.
         and_then (rd (hdl_size s) st) (\<lambda>n st.
         and_then (chSemObjectInit p (uint n) st) (\<lambda>_ st.
         Returns s st))))"

definition osal_semaphore_wait ::
  "'t::len word chconf \<Rightarrow> osal_semaphore_t \<Rightarrow> 32 word \<Rightarrow> wakeup \<Rightarrow> state \<Rightarrow> bool outcome" where
  "osal_semaphore_wait cf sem_hdl msec env st =
     (let ticks = (if msec = OSAL_TIMEOUT_WAIT_FOREVER cf then TIME_INFINITE cf
                   else TIME_MS2I cf msec)
      in and_then (rd (hdl_sem sem_hdl) st) (\<lambda>p st.
         and_then (chSemWaitTimeout cf p ticks env st) (\<lambda>msg st.
         Returns (msg \<noteq> 0) st)))"

subsection \<open>Mutex API\<close>

text \<open>
  The mutex types are the semaphore types. In \<^verbatim>\<open>osal_mutex_create\<close> the only local
  the function declares is \<open>m\<close>; the statements that name \<open>s\<close> are modelled on a second
  local of the handle type, which nothing has initialised either. \<^verbatim>\<open>osal_mutex_lock\<close>
  is \<^verbatim>\<open>osal_semaphore_wait\<close> but for the type of its local: the period is held in a
  \<^verbatim>\<open>uint32_t\<close> and converted back to \<^verbatim>\<open>sysinterval_t\<close> at the kernel call.
\<close>

type_synonym osal_mutex_def_t = osal_semaphore_def_t
type_synonym osal_mutex_t = osal_semaphore_t

definition osal_mutex_create :: "osal_mutex_def_t \<Rightarrow> state \<Rightarrow> osal_mutex_t outcome" where
  "osal_mutex_create mdef st =
     (let m = \<lparr>hdl_size = None, hdl_sem = None\<rparr>;
          s = \<lparr>hdl_size = None, hdl_sem = None\<rparr>;
          m = m\<lparr>hdl_size := Some 1\<rparr>;
          s = s\<lparr>hdl_sem := Some (def_sem mdef)\<rparr>
      in and_then (rd (hdl_sem m) st) (\<lambda>p st.
         and_then (rd (hdl_size m) st) (\<lambda>n st.
         and_then (chSemObjectInit p (uint n) st) (\<lambda>_ st.
         Returns s st))))"

definition osal_mutex_lock ::
  "'t::len word chconf \<Rightarrow> osal_mutex_t \<Rightarrow> 32 word \<Rightarrow> wakeup \<Rightarrow> state \<Rightarrow> bool outcome" where
  "osal_mutex_lock cf mutex_hdl msec env st =
     (let ticks = (ucast (if msec = OSAL_TIMEOUT_WAIT_FOREVER cf then TIME_INFINITE cf
                          else TIME_MS2I cf msec) :: 32 word)
      in and_then (rd (hdl_sem mutex_hdl) st) (\<lambda>p st.
         and_then (chSemWaitTimeout cf p (ucast ticks) env st) (\<lambda>msg st.
         Returns (msg \<noteq> 0) st)))"

subsection \<open>Kernel calls on the system lock and the objects FIFO\<close>

text \<open>
  Modelled from the spec: the kernel's lock brackets are not part of the sources. They are
  the "interrupt-context lock/unlock bracket pair" and its thread-context twin; the state
  records whether the lock is held.
\<close>

definition chSysLock :: "state \<Rightarrow> unit outcome" where
  "chSysLock st = Returns () (st\<lparr>syslocked := True\<rparr>)"

definition chSysUnlock :: "state \<Rightarrow> unit outcome" where
  "chSysUnlock st = Returns () (st\<lparr>syslocked := False\<rparr>)"

definition chSysLockFromISR :: "state \<Rightarrow> unit outcome" where
  "chSysLockFromISR st = Returns () (st\<lparr>syslocked := True\<rparr>)"

definition chSysUnlockFromISR :: "state \<Rightarrow> unit outcome" where
  "chSysUnlockFromISR st = Returns () (st\<lparr>syslocked := False\<rparr>)"

text \<open>Following a pointer to a control block that no create call has initialised is a fault.\<close>

definition deref_fifo :: "addr \<Rightarrow> state \<Rightarrow> objects_fifo_t outcome" where
  "deref_fifo ofp st = (case fifos st ofp of None \<Rightarrow> Fault Invalid_Object | Some F \<Rightarrow> Returns F st)"

definition put_fifo :: "addr \<Rightarrow> objects_fifo_t \<Rightarrow> state \<Rightarrow> state" where
  "put_fifo ofp F st = st\<lparr>fifos := (fifos st)(ofp \<mapsto> F)\<rparr>"

text \<open>
  Modelled from the spec: the kernel's \<^verbatim>\<open>chFifoObjectInit\<close> is not part of the sources.
  It "binds the object buffer and message-slot buffer into a pool-backed FIFO with depth
  slots of object\_size bytes each": every slot is free, the mailbox is empty and has one
  place per slot. An object pointer is the index of its slot in the object buffer, and
  \<^verbatim>\<open>NULL\<close> is \<open>None\<close>.
\<close>

definition chFifoObjectInit :: "addr \<Rightarrow> nat \<Rightarrow> nat \<Rightarrow> addr \<Rightarrow> addr \<Rightarrow> state \<Rightarrow> unit outcome" where
  "chFifoObjectInit ofp objsz objn objbuf msgbuf st =
     Returns () (put_fifo ofp
       \<lparr>objsize = objsz, pool_buf = objbuf, mbx_buf = msgbuf,
        objs = replicate objn (replicate objsz 0),
        free = rev [0..<objn], mbx = [], mbsize = objn\<rparr> st)"

text \<open>
  Modelled from the spec: the kernel's \<^verbatim>\<open>chFifoTakeObjectI\<close> is not part of the sources.
  It is the "non-blocking, lock-protected allocation": a free slot, or \<^verbatim>\<open>NULL\<close> at once
  when the pool has none.
\<close>

definition chFifoTakeObjectI :: "addr \<Rightarrow> state \<Rightarrow> nat option outcome" where
  "chFifoTakeObjectI ofp st =
     and_then (deref_fifo ofp st) (\<lambda>F st.
       case free F of
         [] \<Rightarrow> Returns None st
       | obj # rest \<Rightarrow> Returns (Some obj) (put_fifo ofp (F\<lparr>free := rest\<rparr>) st))"

text \<open>
  Modelled from the spec: the kernel's \<^verbatim>\<open>chFifoTakeObjectTimeout\<close> is not part of the
  sources. It acquires a free slot and "blocks if pool exhausted": with the infinite
  timeout it does not return while no slot is free, with a finite one it gives
  \<^verbatim>\<open>NULL\<close>. Its arguments are the three the adapter passes: the FIFO, the payload
  pointer and the timeout.
\<close>

definition chFifoTakeObjectTimeout ::
  "'i chconf \<Rightarrow> addr \<Rightarrow> byte list \<Rightarrow> 'i \<Rightarrow> state \<Rightarrow> nat option outcome" where
  "chFifoTakeObjectTimeout cf ofp data timeout st =
     and_then (deref_fifo ofp st) (\<lambda>F st.
       case free F of
         [] \<Rightarrow> if timeout = TIME_INFINITE cf then Suspended else Returns None st
       | obj # rest \<Rightarrow> Returns (Some obj) (put_fifo ofp (F\<lparr>free := rest\<rparr>) st))"

text \<open>
  Modelled from the spec: the kernel's \<^verbatim>\<open>chFifoReturnObject\<close> is not part of the sources.
  It "returns the consumed slot to the free pool".
\<close>

definition chFifoReturnObject :: "addr \<Rightarrow> nat \<Rightarrow> state \<Rightarrow> unit outcome" where
  "chFifoReturnObject ofp obj st =
     and_then (deref_fifo ofp st) (\<lambda>F st.
       Returns () (put_fifo ofp (F\<lparr>free := obj # free F\<rparr>) st))"

text \<open>
  Modelled from the spec: the kernel's \<^verbatim>\<open>chFifoSendObjectI\<close> is not part of the sources.
  It is the "lock-protected non-blocking send" that enqueues a slot for delivery behind
  the slots already enqueued; a mailbox with no place left takes nothing.
\<close>

definition chFifoSendObjectI :: "addr \<Rightarrow> nat \<Rightarrow> state \<Rightarrow> unit outcome" where
  "chFifoSendObjectI ofp obj st =
     and_then (deref_fifo ofp st) (\<lambda>F st.
       if length (mbx F) < mbsize F
       then Returns () (put_fifo ofp (F\<lparr>mbx := mbx F @ [obj]\<rparr>) st)
       else Returns () st)"

text \<open>
  Modelled from the spec: the kernel's \<^verbatim>\<open>chFifoSendObject\<close> is not part of the sources.
  It is the thread-context "enqueue with infinite timeout", with the three arguments the
  adapter passes and the status the adapter compares with \<^verbatim>\<open>MSG_OK\<close>.
\<close>

definition chFifoSendObject ::
  "'i chconf \<Rightarrow> addr \<Rightarrow> nat \<Rightarrow> 'i \<Rightarrow> state \<Rightarrow> msg_t outcome" where
  "chFifoSendObject cf ofp obj timeout st =
     and_then (deref_fifo ofp st) (\<lambda>F st.
       if length (mbx F) < mbsize F
       then Returns MSG_OK (put_fifo ofp (F\<lparr>mbx := mbx F @ [obj]\<rparr>) st)
       else if timeout = TIME_INFINITE cf then Suspended
       else Returns MSG_TIMEOUT st)"

text \<open>
  Modelled from the spec: the kernel's \<^verbatim>\<open>chFifoReceiveObjectTimeout\<close> is not part of the
  sources. It "blocks (infinite timeout) until a slot is enqueued" and hands over the
  oldest enqueued slot by storing its pointer in the cell that \<open>objpp\<close> points to.
\<close>

definition chFifoReceiveObjectTimeout ::
  "'i chconf \<Rightarrow> addr \<Rightarrow> addr \<Rightarrow> 'i \<Rightarrow> state \<Rightarrow> msg_t outcome" where
  "chFifoReceiveObjectTimeout cf ofp objpp timeout st =
     and_then (deref_fifo ofp st) (\<lambda>F st.
       case mbx F of
         [] \<Rightarrow> if timeout = TIME_INFINITE cf then Suspended else Returns MSG_TIMEOUT st
       | obj # rest \<Rightarrow>
           if objpp \<in> dom (cells st)
           then Returns MSG_OK
                  ((put_fifo ofp (F\<lparr>mbx := rest\<rparr>) st)\<lparr>cells := (cells st)(objpp \<mapsto> Some obj)\<rparr>)
           else Fault Invalid_Object)"

text \<open>
  Modelled from the spec: the kernel's \<^verbatim>\<open>chMBGetFreeCountI\<close> is not part of the sources.
  The free count of a mailbox is the number of its places that hold no message, the
  complement of the "ready objects" the delivery mechanism holds.
\<close>

definition chMBGetFreeCountI :: "objects_fifo_t \<Rightarrow> nat" where
  "chMBGetFreeCountI F = mbsize F - length (mbx F)"

subsection \<open>Copying bytes\<close>

text \<open>
  \<^verbatim>\<open>memcpy\<close> of \<open>n\<close> bytes replaces the first \<open>n\<close> bytes of the destination by the
  first \<open>n\<close> bytes of the source; both must have them. The two wrappers copy into and
  out of a slot of a FIFO's object buffer.
\<close>

definition memcpy :: "byte list \<Rightarrow> byte list \<Rightarrow> nat \<Rightarrow> byte list option" where
  "memcpy dst src n =
     (if n \<le> length dst \<and> n \<le> length src then Some (take n src @ drop n dst) else None)"

definition memcpy_to_object :: "addr \<Rightarrow> nat \<Rightarrow> byte list \<Rightarrow> nat \<Rightarrow> state \<Rightarrow> unit outcome" where
  "memcpy_to_object ofp obj src n st =
     and_then (deref_fifo ofp st) (\<lambda>F st.
       if obj < length (objs F)
       then (case memcpy (objs F ! obj) src n of
               None \<Rightarrow> Fault Out_Of_Bounds
             | Some bytes \<Rightarrow> Returns () (put_fifo ofp (F\<lparr>objs := (objs F)[obj := bytes]\<rparr>) st))
       else Fault Out_Of_Bounds)"

definition memcpy_from_object :: "byte list \<Rightarrow> addr \<Rightarrow> nat \<Rightarrow> nat \<Rightarrow> state \<Rightarrow> byte list outcome" where
  "memcpy_from_object dst ofp obj n st =
     and_then (deref_fifo ofp st) (\<lambda>F st.
       if obj < length (objs F)
       then (case memcpy dst (objs F ! obj) n of
               None \<Rightarrow> Fault Out_Of_Bounds
             | Some bytes \<Rightarrow> Returns bytes st)
       else Fault Out_Of_Bounds)"

subsection \<open>Queue API\<close>

record osal_queue_def_t =
  depth :: "16 word"
  def_obj_sz :: "16 word"
  objbuf :: addr
  msgbuf :: addr
  def_fifo :: addr  \<comment> \<open>where the embedded \<^verbatim>\<open>objects_fifo_t fifo\<close> lives: \<^verbatim>\<open>&qdef->fifo\<close>\<close>

record osal_queue_t =
  obj_sz :: "16 word option"
  fifo :: "addr option"

text \<open>
  \<^verbatim>\<open>osal_queue_create\<close> returns \<^verbatim>\<open>&qdef->fifo\<close> where its type asks for a handle
  structure: the handle that comes back carries this address, and no statement gives its
  \<open>obj_sz\<close> a value.
\<close>

definition osal_queue_create :: "osal_queue_def_t \<Rightarrow> state \<Rightarrow> osal_queue_t outcome" where
  "osal_queue_create qdef st =
     and_then (chFifoObjectInit (def_fifo qdef) (unat (def_obj_sz qdef)) (unat (depth qdef))
                 (objbuf qdef) (msgbuf qdef) st) (\<lambda>_ st.
     Returns \<lparr>obj_sz = None, fifo = Some (def_fifo qdef)\<rparr> st)"

text \<open>
  \<^verbatim>\<open>osal_queue_receive\<close> declares \<^verbatim>\<open>void** objpp\<close> without an initialiser and never
  assigns it. The caller's buffer \<open>data\<close> comes back with the bytes copied into it.
\<close>

definition osal_queue_receive ::
  "'i chconf \<Rightarrow> osal_queue_t \<Rightarrow> byte list \<Rightarrow> state \<Rightarrow> (bool \<times> byte list) outcome" where
  "osal_queue_receive cf qhdl data st =
     (let objpp = (None :: addr option)
      in and_then (rd (fifo qhdl) st) (\<lambda>f st.
         and_then (rd objpp st) (\<lambda>pp st.
         and_then (chFifoReceiveObjectTimeout cf f pp (TIME_INFINITE cf) st) (\<lambda>msg st.
         let r = (msg \<noteq> MSG_OK)
         in if r then Returns (True, data) st
            else and_then (rd (cells st pp) st) (\<lambda>objp st.
                 case objp of
                   None \<Rightarrow> Fault Null_Pointer
                 | Some obj \<Rightarrow>
                     and_then (rd (obj_sz qhdl) st) (\<lambda>n st.
                     and_then (memcpy_from_object data f obj (unat n) st) (\<lambda>data' st.
                     and_then (chFifoReturnObject f obj st) (\<lambda>_ st.
                     Returns (False, data') st))))))))"

definition osal_queue_send ::
  "'i chconf \<Rightarrow> osal_queue_t \<Rightarrow> byte list \<Rightarrow> bool \<Rightarrow> state \<Rightarrow> bool outcome" where
  "osal_queue_send cf qhdl data in_isr st =
     (if \<not> in_isr
      then and_then (rd (fifo qhdl) st) (\<lambda>f st.
           and_then (chFifoTakeObjectTimeout cf f data (TIME_INFINITE cf) st) (\<lambda>objp st.
           case objp of
             None \<Rightarrow> Returns True st
           | Some obj \<Rightarrow>
               and_then (rd (obj_sz qhdl) st) (\<lambda>n st.
               and_then (memcpy_to_object f obj data (unat n) st) (\<lambda>_ st.
               and_then (chFifoSendObject cf f obj (TIME_INFINITE cf) st) (\<lambda>msg st.
               Returns (msg \<noteq> MSG_OK) st)))))
      else and_then (chSysLockFromISR st) (\<lambda>_ st.
           and_then (rd (fifo qhdl) st) (\<lambda>f st.
           and_then (chFifoTakeObjectI f st) (\<lambda>objp st.
           and_then (chSysUnlockFromISR st) (\<lambda>_ st.
           case objp of
             None \<Rightarrow> Returns True st
           | Some obj \<Rightarrow>
               and_then (rd (obj_sz qhdl) st) (\<lambda>n st.
               and_then (memcpy_to_object f obj data (unat n) st) (\<lambda>_ st.
               and_then (chSysLockFromISR st) (\<lambda>_ st.
               and_then (chFifoSendObjectI f obj st) (\<lambda>_ st.
               and_then (chSysUnlockFromISR st) (\<lambda>_ st.
               Returns False st))))))))))"

definition osal_queue_empty :: "osal_queue_t \<Rightarrow> state \<Rightarrow> bool outcome" where
  "osal_queue_empty qhdl st =
     and_then (chSysLock st) (\<lambda>_ st.
     and_then (rd (fifo qhdl) st) (\<lambda>f st.
     and_then (deref_fifo f st) (\<lambda>F st.
     let cnt = (of_nat (chMBGetFreeCountI F) :: 16 word)
     in and_then (chSysUnlock st) (\<lambda>_ st.
        Returns (cnt = 0) st))))"

subsection \<open>Runs of sends and the shape of a FIFO\<close>

text \<open>
  A run of sends each of which returns with \<open>failed = false\<close>, with no receive in
  between, and the well-formedness of a FIFO: every free or enqueued pointer is a slot of
  the object buffer, every slot has the object size, and the mailbox has room for all the
  slots that are not free.
\<close>

fun sends :: "'i chconf \<Rightarrow> osal_queue_t \<Rightarrow> (byte list \<times> bool) list \<Rightarrow> state \<Rightarrow> state option" where
  "sends cf qhdl [] st = Some st"
| "sends cf qhdl ((data, in_isr) # rest) st =
     (case osal_queue_send cf qhdl data in_isr st of
        Returns failed st' \<Rightarrow> if failed then None else sends cf qhdl rest st'
      | Suspended \<Rightarrow> None
      | Fault e \<Rightarrow> None)"

definition fifo_ok :: "objects_fifo_t \<Rightarrow> bool" where
  "fifo_ok F \<longleftrightarrow>
     list_all (\<lambda>obj. obj < length (objs F)) (free F @ mbx F) \<and>
     list_all (\<lambda>bytes. length bytes = objsize F) (objs F) \<and>
     length (free F) + length (mbx F) \<le> mbsize F"

subsection \<open>Concrete configurations and states\<close>

text \<open>
  Two kernel configurations, with 32-bit and with 64-bit intervals and one tick per
  millisecond, and the queue of the spec's scenario (depth 4, objects of 2 bytes) freshly
  created, after one, two and three sends, and with all four slots enqueued. The last three
  states have a pointer cell at address 900 for a consumer: the full queue after the kernel
  has fetched the oldest object into that cell, after the consumer has given the slot
  back, and after the next send has taken it.
\<close>

definition boot :: state where
  "boot = \<lparr>sems = Map.empty, fifos = Map.empty, cells = Map.empty, syslocked = False\<rparr>"

definition chconf32 :: "32 word chconf" where
  "chconf32 = \<lparr>TIME_INFINITE = 4294967295, TIME_MS2I = (\<lambda>msec. msec),
     OSAL_TIMEOUT_WAIT_FOREVER = 4294967295\<rparr>"

definition chconf64 :: "64 word chconf" where
  "chconf64 = \<lparr>TIME_INFINITE = 18446744073709551615, TIME_MS2I = (\<lambda>msec. ucast msec),
     OSAL_TIMEOUT_WAIT_FOREVER = 4294967295\<rparr>"

definition queue_def_4x2 :: osal_queue_def_t where
  "queue_def_4x2 = \<lparr>depth = 4, def_obj_sz = 2, objbuf = 100, msgbuf = 200, def_fifo = 300\<rparr>"

definition queue_4x2 :: osal_queue_t where
  "queue_4x2 = \<lparr>obj_sz = Some 2, fifo = Some 300\<rparr>"

definition fifo_4x2 :: "byte list list \<Rightarrow> nat list \<Rightarrow> nat list \<Rightarrow> state" where
  "fifo_4x2 slots fr mb = boot\<lparr>fifos := [300 \<mapsto>
      \<lparr>objsize = 2, pool_buf = 100, mbx_buf = 200, objs = slots,
       free = fr, mbx = mb, mbsize = 4\<rparr>]\<rparr>"

definition fresh_4x2 :: state where
  "fresh_4x2 = fifo_4x2 [[0, 0], [0, 0], [0, 0], [0, 0]] [3, 2, 1, 0] []"

definition one_sent_4x2 :: state where
  "one_sent_4x2 = fifo_4x2 [[0, 0], [0, 0], [0, 0], [1, 0]] [2, 1, 0] [3]"

definition two_sent_4x2 :: state where
  "two_sent_4x2 = fifo_4x2 [[0, 0], [0, 0], [2, 0], [1, 0]] [1, 0] [3, 2]"

definition three_sent_4x2 :: state where
  "three_sent_4x2 = fifo_4x2 [[0, 0], [3, 0], [2, 0], [1, 0]] [0] [3, 2, 1]"

definition full_4x2 :: state where
  "full_4x2 = fifo_4x2 [[4, 0], [3, 0], [2, 0], [1, 0]] [] [3, 2, 1, 0]"

definition draining_4x2 :: state where
  "draining_4x2 =
     (fifo_4x2 [[4, 0], [3, 0], [2, 0], [1, 0]] [] [2, 1, 0])\<lparr>cells := [900 \<mapsto> Some 3]\<rparr>"

definition returned_4x2 :: state where
  "returned_4x2 =
     (fifo_4x2 [[4, 0], [3, 0], [2, 0], [1, 0]] [3] [2, 1, 0])\<lparr>cells := [900 \<mapsto> Some 3]\<rparr>"

definition refilled_4x2 :: state where
  "refilled_4x2 =
     (fifo_4x2 [[4, 0], [3, 0], [2, 0], [5, 0]] [] [2, 1, 0, 3])\<lparr>cells := [900 \<mapsto> Some 3]\<rparr>"

section \<open>Basic facts about the model\<close>

lemma and_then_Returns [simp]: "and_then (Returns x st) k = k x st"
  and and_then_Suspended [simp]: "and_then Suspended k = Suspended"
  and and_then_Fault [simp]: "and_then (Fault e) k = Fault e"
  by (simp_all add: and_then_def)

lemma rd_simps [simp]:
  "rd None st = Fault Indeterminate_Value"
  "rd (Some x) st = Returns x st"
  by (simp_all add: rd_def)

lemma deref_fifo_Some [simp]: "fifos st f = Some F \<Longrightarrow> deref_fifo f st = Returns F st"
  by (simp add: deref_fifo_def)

lemma fifos_put_fifo [simp]: "fifos (put_fifo f F st) = (fifos st)(f \<mapsto> F)"
  by (simp add: put_fifo_def)

lemmas lock_defs = chSysLock_def chSysUnlock_def chSysLockFromISR_def chSysUnlockFromISR_def

lemmas msg_defs = MSG_OK_def MSG_TIMEOUT_def MSG_RESET_def

lemmas states_4x2 = fifo_4x2_def boot_def fresh_4x2_def one_sent_4x2_def two_sent_4x2_def
  three_sent_4x2_def full_4x2_def draining_4x2_def returned_4x2_def refilled_4x2_def
  queue_4x2_def queue_def_4x2_def

lemma memcpy_length: "memcpy dst src n = Some bytes \<Longrightarrow> length bytes = length dst"
  by (auto simp add: memcpy_def split: if_splits)

lemma word16_of_nat_zero:
  assumes "k < 65536"
  shows "(of_nat k :: 16 word) = 0 \<longleftrightarrow> k = 0"
proof -
  have "(2 ^ LENGTH(16) :: nat) dvd k \<longleftrightarrow> k = 0"
    using assms by (auto dest: dvd_imp_le)
  then show ?thesis by (simp only: word_of_nat_eq_0_iff)
qed

section \<open>Semaphore and mutex\<close>

text \<open>
  The timed wait of the mutex keeps the period in a \<^verbatim>\<open>uint32_t\<close> local, the timed wait
  of the semaphore in a \<^verbatim>\<open>sysinterval_t\<close> one. Where the kernel's intervals have at
  most 32 bits the two functions are the same.
\<close>

lemma osal_mutex_lock_narrow_intervals:
  fixes cf :: "'t::len word chconf"
  assumes "LENGTH('t) \<le> 32"
  shows "osal_mutex_lock cf h msec env st = osal_semaphore_wait cf h msec env st"
proof -
  have "ucast (ucast x :: 32 word) = x" for x :: "'t word"
    using assms by (simp add: ucast_up_ucast_id is_up)
  then show ?thesis by (simp add: osal_mutex_lock_def osal_semaphore_wait_def)
qed

section \<open>Queue: create and empty\<close>

lemma osal_queue_create_fifo:
  assumes "osal_queue_create qdef st0 = Returns q0 st1"
  shows "fifo q0 = Some (def_fifo qdef) \<and> obj_sz q0 = None \<and>
    fifos st1 (def_fifo qdef) =
      Some \<lparr>objsize = unat (def_obj_sz qdef), pool_buf = objbuf qdef, mbx_buf = msgbuf qdef,
            objs = replicate (unat (depth qdef)) (replicate (unat (def_obj_sz qdef)) 0),
            free = rev [0..<unat (depth qdef)], mbx = [], mbsize = unat (depth qdef)\<rparr>"
  using assms by (auto simp add: osal_queue_create_def chFifoObjectInit_def)

lemma osal_queue_create_fifo_ok:
  assumes "osal_queue_create qdef st0 = Returns q0 st1"
  shows "\<exists>F. fifos st1 (def_fifo qdef) = Some F \<and> fifo_ok F"
  using osal_queue_create_fifo [OF assms] by (simp add: fifo_ok_def list_all_iff)

lemma upt_4: "[0..<4] = [0, 1, 2, 3]"
  by (simp add: upt_rec)

lemma replicate_4: "replicate 4 x = [x, x, x, x]"
  by (simp add: numeral_eq_Suc)

lemma replicate_2: "replicate 2 x = [x, x]"
  by (simp add: numeral_eq_Suc)

lemma osal_queue_create_4x2:
  "osal_queue_create queue_def_4x2 boot = Returns \<lparr>obj_sz = None, fifo = Some 300\<rparr> fresh_4x2"
  by (simp add: osal_queue_create_def chFifoObjectInit_def put_fifo_def states_4x2
      upt_4 replicate_4 replicate_2)

text \<open>
  \<^verbatim>\<open>osal_queue_empty\<close> tests the free count of the mailbox: it answers whether the
  mailbox is full.
\<close>

lemma osal_queue_empty_full:
  assumes "fifo q = Some f" "fifos st f = Some F" "mbsize F < 65536"
  shows "osal_queue_empty q st = Returns (mbsize F \<le> length (mbx F)) (st\<lparr>syslocked := False\<rparr>)"
proof -
  from assms(3) have "mbsize F - length (mbx F) < 65536" by simp
  from word16_of_nat_zero [OF this] assms(1,2) show ?thesis
    by (simp add: osal_queue_empty_def lock_defs chMBGetFreeCountI_def)
qed

section \<open>Queue: send and receive\<close>

lemma osal_queue_receive_faults:
  "osal_queue_receive cf qhdl data st = Fault Indeterminate_Value"
  by (cases "fifo qhdl") (simp_all add: osal_queue_receive_def)

lemma send_isr_exhausted:
  assumes "fifo q = Some f" "fifos st f = Some F" "free F = []"
  shows "osal_queue_send cf q data True st = Returns True (st\<lparr>syslocked := False\<rparr>)"
  using assms by (simp add: osal_queue_send_def lock_defs chFifoTakeObjectI_def)

lemma send_isr_failed:
  assumes "osal_queue_send cf q data True st = Returns True st'"
  shows "st' = st\<lparr>syslocked := False\<rparr>"
  using assms
  by (auto simp add: osal_queue_send_def lock_defs chFifoTakeObjectI_def deref_fifo_def
      and_then_def rd_def memcpy_to_object_def chFifoSendObjectI_def
      split: option.splits list.splits if_splits)

lemma send_isr_never_suspends: "osal_queue_send cf q data True st \<noteq> Suspended"
  by (auto simp add: osal_queue_send_def lock_defs chFifoTakeObjectI_def memcpy_to_object_def
      chFifoSendObjectI_def put_fifo_def deref_fifo_def and_then_def rd_def
      split: list.splits option.splits if_splits)

lemma send_thread_never_fails: "osal_queue_send cf q data False st \<noteq> Returns True st'"
  by (auto simp add: osal_queue_send_def chFifoTakeObjectTimeout_def deref_fifo_def
      and_then_def rd_def memcpy_to_object_def chFifoSendObject_def
      split: option.splits list.splits if_splits)

lemma send_thread_exhausted:
  assumes "fifo q = Some f" "fifos st f = Some F" "free F = []"
  shows "osal_queue_send cf q data False st = Suspended"
  using assms by (simp add: osal_queue_send_def chFifoTakeObjectTimeout_def)

text \<open>
  What a thread-context send does when it returns: it has taken the slot at the head of the
  pool, copied the payload over the first \<open>obj_sz\<close> bytes of that slot and enqueued the
  slot behind the ones already in the mailbox.
\<close>

lemma send_thread_acquires:
  assumes "fifo q = Some f" "fifos st f = Some F" "obj_sz q = Some n" "free F = obj # rest"
    "obj < length (objs F)" "unat n \<le> length (objs F ! obj)" "unat n \<le> length data"
    "length (mbx F) < mbsize F"
  shows "osal_queue_send cf q data False st =
           Returns False
             (put_fifo f
                (F\<lparr>free := rest,
                   objs := (objs F)[obj := take (unat n) data @ drop (unat n) (objs F ! obj)],
                   mbx := mbx F @ [obj]\<rparr>) st)"
  using assms
  by (simp add: osal_queue_send_def chFifoTakeObjectTimeout_def memcpy_to_object_def memcpy_def
      chFifoSendObject_def put_fifo_def)

lemma send_thread_returns_acquired:
  assumes "osal_queue_send cf q data False st = Returns r st'" "fifo q = Some f"
    "fifos st f = Some F"
  shows "\<exists>obj rest n. free F = obj # rest \<and> obj_sz q = Some n \<and> r = False \<and>
           st' = put_fifo f
                   (F\<lparr>free := rest,
                      objs := (objs F)[obj := take (unat n) data @ drop (unat n) (objs F ! obj)],
                      mbx := mbx F @ [obj]\<rparr>) st"
  using assms
  by (auto simp add: osal_queue_send_def chFifoTakeObjectTimeout_def memcpy_to_object_def
      memcpy_def chFifoSendObject_def put_fifo_def deref_fifo_def and_then_def rd_def
      split: list.splits option.splits if_splits)

lemma send_thread_after_return:
  assumes "fifo q = Some f" "fifos st f = Some F" "obj_sz q = Some n" "free F = []"
    "chFifoReturnObject f obj st = Returns () sr"
    "obj < length (objs F)" "unat n \<le> length (objs F ! obj)" "unat n \<le> length data"
    "length (mbx F) < mbsize F"
  shows "fifos sr f = Some (F\<lparr>free := [obj]\<rparr>) \<and>
         osal_queue_send cf q data False sr =
           Returns False
             (put_fifo f
                (F\<lparr>free := [],
                   objs := (objs F)[obj := take (unat n) data @ drop (unat n) (objs F ! obj)],
                   mbx := mbx F @ [obj]\<rparr>) sr)"
  using assms
  by (auto simp add: osal_queue_send_def chFifoReturnObject_def chFifoTakeObjectTimeout_def
      memcpy_to_object_def memcpy_def chFifoSendObject_def put_fifo_def)

lemma send_isr_returns:
  assumes "fifo q = Some f" "fifos st f = Some F" "fifo_ok F" "obj_sz q = Some n"
    "unat n \<le> objsize F" "unat n \<le> length data"
  shows "\<exists>st'. osal_queue_send cf q data True st = Returns (free F = []) st'"
proof (cases "free F")
  case Nil
  with assms show ?thesis by (simp add: send_isr_exhausted)
next
  case (Cons obj rest)
  from assms(3) Cons have obj: "obj < length (objs F)"
    by (simp add: fifo_ok_def)
  from assms(3) have "\<forall>bytes \<in> set (objs F). length bytes = objsize F"
    by (simp add: fifo_ok_def list_all_iff)
  with obj have len: "length (objs F ! obj) = objsize F"
    by simp
  from assms Cons obj len show ?thesis
    by (simp add: osal_queue_send_def lock_defs chFifoTakeObjectI_def memcpy_to_object_def
        memcpy_def chFifoSendObjectI_def put_fifo_def)
qed

text \<open>A send that succeeds takes exactly one slot out of the pool, in either context.\<close>

lemma send_success_free:
  assumes "osal_queue_send cf q data in_isr st = Returns False st'" "fifo q = Some f"
    "fifos st f = Some F"
  shows "\<exists>F'. fifos st' f = Some F' \<and> Suc (length (free F')) = length (free F)"
proof (cases in_isr)
  case True
  with assms show ?thesis
    by (auto simp add: osal_queue_send_def lock_defs chFifoTakeObjectI_def memcpy_to_object_def
        chFifoSendObjectI_def put_fifo_def deref_fifo_def and_then_def rd_def
        split: list.splits option.splits if_splits)
next
  case False
  with assms show ?thesis
    by (auto simp add: osal_queue_send_def chFifoTakeObjectTimeout_def memcpy_to_object_def
        chFifoSendObject_def put_fifo_def deref_fifo_def and_then_def rd_def
        split: list.splits option.splits if_splits)
qed

lemma sends_free:
  "sends cf q xs st = Some st' \<Longrightarrow> fifo q = Some f \<Longrightarrow> fifos st f = Some F \<Longrightarrow>
   \<exists>F'. fifos st' f = Some F' \<and> length (free F') + length xs = length (free F)"
proof (induction xs arbitrary: st F)
  case Nil
  then show ?case by simp
next
  case (Cons x xs)
  obtain data in_isr where x: "x = (data, in_isr)" by (cases x)
  from Cons.prems(1) x obtain st1 where
    s1: "osal_queue_send cf q data in_isr st = Returns False st1" and
    s2: "sends cf q xs st1 = Some st'"
    by (auto split: outcome.splits if_splits)
  from send_success_free [OF s1 Cons.prems(2) Cons.prems(3)] obtain F1 where
    F1: "fifos st1 f = Some F1" "Suc (length (free F1)) = length (free F)" by blast
  from Cons.IH [OF s2 Cons.prems(2) F1(1)] F1(2) show ?case by auto
qed

lemma send_after_depth_sends:
  assumes "osal_queue_create qdef st0 = Returns q0 st1" "q = q0\<lparr>obj_sz := Some sz\<rparr>"
    "sends cf q xs st1 = Some st2" "length xs = unat (depth qdef)"
  shows "osal_queue_send cf q data True st2 = Returns True (st2\<lparr>syslocked := False\<rparr>)"
proof -
  from osal_queue_create_fifo [OF assms(1)] assms(2) obtain F where
    q: "fifo q = Some (def_fifo qdef)" and F: "fifos st1 (def_fifo qdef) = Some F"
    and n: "length (free F) = unat (depth qdef)" by auto
  from sends_free [OF assms(3) q F] n assms(4) obtain F' where
    "fifos st2 (def_fifo qdef) = Some F'" "free F' = []" by auto
  with q show ?thesis by (simp add: send_isr_exhausted)
qed

text \<open>Well-formedness is kept by every send that returns.\<close>

lemma fifo_ok_take:
  assumes "fifo_ok F" "free F = obj # rest" "memcpy (objs F ! obj) src n = Some bytes"
  shows "fifo_ok (F\<lparr>free := rest, objs := (objs F)[obj := bytes]\<rparr>)"
    and "fifo_ok (F\<lparr>free := rest, objs := (objs F)[obj := bytes], mbx := mbx F @ [obj]\<rparr>)"
proof -
  from assms(1,2) have obj: "obj < length (objs F)" by (simp add: fifo_ok_def)
  from assms(1) have "\<forall>b \<in> set (objs F). length b = objsize F"
    by (simp add: fifo_ok_def list_all_iff)
  with obj have "length (objs F ! obj) = objsize F" by simp
  with memcpy_length [OF assms(3)] have len: "length bytes = objsize F" by simp
  have upd: "list_all (\<lambda>b. length b = objsize F) ((objs F)[obj := bytes])"
    using assms(1) len
    by (auto simp add: fifo_ok_def list_all_iff dest: set_update_subset_insert [THEN subsetD])
  show "fifo_ok (F\<lparr>free := rest, objs := (objs F)[obj := bytes]\<rparr>)"
    using assms(1,2) upd by (simp add: fifo_ok_def)
  show "fifo_ok (F\<lparr>free := rest, objs := (objs F)[obj := bytes], mbx := mbx F @ [obj]\<rparr>)"
    using assms(1,2) upd by (simp add: fifo_ok_def)
qed

lemma send_fifo_ok:
  assumes "osal_queue_send cf q data in_isr st = Returns r st'" "fifo q = Some f"
    "fifos st f = Some F" "fifo_ok F"
  shows "\<exists>F'. fifos st' f = Some F' \<and> fifo_ok F'"
proof (cases in_isr)
  case True
  with assms show ?thesis
    by (auto simp add: osal_queue_send_def lock_defs chFifoTakeObjectI_def memcpy_to_object_def
        chFifoSendObjectI_def put_fifo_def deref_fifo_def and_then_def rd_def fifo_ok_take
        split: list.splits option.splits if_splits)
next
  case False
  with assms show ?thesis
    by (auto simp add: osal_queue_send_def chFifoTakeObjectTimeout_def memcpy_to_object_def
        chFifoSendObject_def put_fifo_def deref_fifo_def and_then_def rd_def fifo_ok_take
        split: list.splits option.splits if_splits)
qed

text \<open>The scenario of the spec, evaluated: the four sends on the fresh queue.\<close>

lemmas send_defs = osal_queue_send_def lock_defs chFifoTakeObjectI_def chFifoTakeObjectTimeout_def
  memcpy_to_object_def memcpy_def chFifoSendObjectI_def chFifoSendObject_def put_fifo_def
  chFifoReturnObject_def

lemma send_first_4x2:
  "osal_queue_send chconf32 queue_4x2 [1, 0] False fresh_4x2 = Returns False one_sent_4x2"
  by (simp add: send_defs states_4x2 chconf32_def)

lemma send_second_4x2:
  "osal_queue_send chconf32 queue_4x2 [2, 0] False one_sent_4x2 = Returns False two_sent_4x2"
  by (simp add: send_defs states_4x2 chconf32_def)

lemma sends_two_4x2:
  "sends chconf32 queue_4x2 [([1, 0], False), ([2, 0], False)] fresh_4x2 = Some two_sent_4x2"
  by (simp add: send_first_4x2 send_second_4x2)

lemma send_third_4x2:
  "osal_queue_send chconf32 queue_4x2 [3, 0] True two_sent_4x2 = Returns False three_sent_4x2"
  by (simp add: send_defs states_4x2 chconf32_def)

lemma send_fourth_4x2:
  "osal_queue_send chconf32 queue_4x2 [4, 0] True three_sent_4x2 = Returns False full_4x2"
  by (simp add: send_defs states_4x2 chconf32_def)

lemma sends_four_4x2:
  "sends chconf32 queue_4x2 [([1, 0], False), ([2, 0], False), ([3, 0], True), ([4, 0], True)]
     fresh_4x2 = Some full_4x2"
  by (simp add: send_first_4x2 send_second_4x2 send_third_4x2 send_fourth_4x2)

text \<open>No send reads or writes a pointer cell.\<close>

lemma send_cells:
  "osal_queue_send cf q data in_isr (st\<lparr>cells := c\<rparr>) =
     (case osal_queue_send cf q data in_isr st of
        Returns r s \<Rightarrow> Returns r (s\<lparr>cells := c\<rparr>)
      | Suspended \<Rightarrow> Suspended
      | Fault e \<Rightarrow> Fault e)"
  by (cases in_isr)
    (auto simp add: send_defs deref_fifo_def and_then_def rd_def
      split: list.splits option.splits if_splits)

lemma sends_cells:
  "sends cf q xs st = Some st' \<Longrightarrow> sends cf q xs (st\<lparr>cells := c\<rparr>) = Some (st'\<lparr>cells := c\<rparr>)"
proof (induction xs arbitrary: st)
  case Nil
  then show ?case by simp
next
  case (Cons x xs)
  obtain data in_isr where x: "x = (data, in_isr)" by (cases x)
  from Cons.prems x obtain s where
    s1: "osal_queue_send cf q data in_isr st = Returns False s" and
    s2: "sends cf q xs s = Some st'"
    by (auto split: outcome.splits if_splits)
  from Cons.IH [OF s2] s1 x show ?case by (simp add: send_cells)
qed

text \<open>
  The consumer's side through the kernel: the fetch of the oldest object from the full
  queue, and the return of its slot.
\<close>

lemma fetch_full_4x2:
  "chFifoReceiveObjectTimeout chconf32 300 900 (TIME_INFINITE chconf32)
     (full_4x2\<lparr>cells := [900 \<mapsto> None]\<rparr>) = Returns MSG_OK draining_4x2"
  by (simp add: chFifoReceiveObjectTimeout_def put_fifo_def states_4x2)

lemma return_draining_4x2:
  "chFifoReturnObject 300 3 draining_4x2 = Returns () returned_4x2"
  by (simp add: chFifoReturnObject_def put_fifo_def states_4x2)

section \<open>The claims\<close>

text \<open>
  Claim C1: \<^verbatim>\<open>osal_queue_empty\<close> returns true if and only if the delivery mechanism
  holds zero ready objects. The code does not do this: it compares the mailbox's free
  count with zero. On the queue of depth 4 as \<^verbatim>\<open>osal_queue_create\<close> leaves it, the
  mailbox holds no object and the function returns false; with all four objects enqueued
  it returns true.
\<close>

theorem osal_queue_empty_tests_free_count:
  "osal_queue_create queue_def_4x2 boot = Returns \<lparr>obj_sz = None, fifo = Some 300\<rparr> fresh_4x2
   \<and> map_option mbx (fifos fresh_4x2 300) = Some []
   \<and> osal_queue_empty \<lparr>obj_sz = None, fifo = Some 300\<rparr> fresh_4x2 = Returns False fresh_4x2
   \<and> map_option mbx (fifos full_4x2 300) = Some [3, 2, 1, 0]
   \<and> osal_queue_empty \<lparr>obj_sz = None, fifo = Some 300\<rparr> full_4x2 = Returns True full_4x2"
proof -
  have "osal_queue_empty \<lparr>obj_sz = None, fifo = Some 300\<rparr> fresh_4x2 = Returns False fresh_4x2"
    by (simp add: osal_queue_empty_def lock_defs chMBGetFreeCountI_def states_4x2)
  moreover
  have "osal_queue_empty \<lparr>obj_sz = None, fifo = Some 300\<rparr> full_4x2 = Returns True full_4x2"
    by (simp add: osal_queue_empty_def lock_defs chMBGetFreeCountI_def states_4x2)
  moreover
  have "map_option mbx (fifos fresh_4x2 300) = Some []"
    "map_option mbx (fifos full_4x2 300) = Some [3, 2, 1, 0]"
    by (simp_all add: states_4x2)
  ultimately show ?thesis
    using osal_queue_create_4x2 by simp
qed

text \<open>
  Claim C2: a thread-context send acquires its slot with the infinite timeout. With the
  pool exhausted it does not return; it returns \<open>failed = true\<close> in no state, whereas
  the interrupt-context send on the exhausted pool returns \<open>failed = true\<close>. Whenever it
  returns, it has taken the slot at the head of the pool, copied the payload into it and
  enqueued it, and it does so whenever the pool has a slot; once a slot has been given
  back to the exhausted pool, the send takes that very slot and returns with
  \<open>failed = false\<close>.
\<close>

theorem osal_queue_send_thread_waits_for_slot:
  assumes "fifo qhdl = Some f" "fifos st f = Some F"
  shows "(free F = [] \<longrightarrow> osal_queue_send cf qhdl data False st = Suspended)
    \<and> (\<forall>s s'. osal_queue_send cf qhdl data False s \<noteq> Returns True s')
    \<and> (free F = [] \<longrightarrow>
          osal_queue_send cf qhdl data True st = Returns True (st\<lparr>syslocked := False\<rparr>))
    \<and> (\<forall>r s'. osal_queue_send cf qhdl data False st = Returns r s' \<longrightarrow>
          (\<exists>obj rest n. free F = obj # rest \<and> obj_sz qhdl = Some n \<and> r = False \<and>
             s' = put_fifo f
                    (F\<lparr>free := rest,
                       objs := (objs F)[obj := take (unat n) data @ drop (unat n) (objs F ! obj)],
                       mbx := mbx F @ [obj]\<rparr>) st))
    \<and> (free F = obj # rest \<and> obj_sz qhdl = Some n \<and>
        obj < length (objs F) \<and> unat n \<le> length (objs F ! obj) \<and> unat n \<le> length data \<and>
        length (mbx F) < mbsize F \<longrightarrow>
          osal_queue_send cf qhdl data False st =
            Returns False
              (put_fifo f
                 (F\<lparr>free := rest,
                    objs := (objs F)[obj := take (unat n) data @ drop (unat n) (objs F ! obj)],
                    mbx := mbx F @ [obj]\<rparr>) st))
    \<and> (free F = [] \<and> obj_sz qhdl = Some n \<and> chFifoReturnObject f slot st = Returns () sr \<and>
        slot < length (objs F) \<and> unat n \<le> length (objs F ! slot) \<and> unat n \<le> length data \<and>
        length (mbx F) < mbsize F \<longrightarrow>
          fifos sr f = Some (F\<lparr>free := [slot]\<rparr>) \<and>
          osal_queue_send cf qhdl data False sr =
            Returns False
              (put_fifo f
                 (F\<lparr>free := [],
                    objs := (objs F)[slot := take (unat n) data @ drop (unat n) (objs F ! slot)],
                    mbx := mbx F @ [slot]\<rparr>) sr))"
proof -
  have waits: "free F = [] \<longrightarrow> osal_queue_send cf qhdl data False st = Suspended"
    by (simp add: send_thread_exhausted [OF assms])
  have no_failure: "\<forall>s s'. osal_queue_send cf qhdl data False s \<noteq> Returns True s'"
    by (simp add: send_thread_never_fails)
  have isr_fails: "free F = [] \<longrightarrow>
      osal_queue_send cf qhdl data True st = Returns True (st\<lparr>syslocked := False\<rparr>)"
    by (simp add: send_isr_exhausted [OF assms])
  have acquired: "\<forall>r s'. osal_queue_send cf qhdl data False st = Returns r s' \<longrightarrow>
      (\<exists>obj rest n. free F = obj # rest \<and> obj_sz qhdl = Some n \<and> r = False \<and>
         s' = put_fifo f
                (F\<lparr>free := rest,
                   objs := (objs F)[obj := take (unat n) data @ drop (unat n) (objs F ! obj)],
                   mbx := mbx F @ [obj]\<rparr>) st)"
    using send_thread_returns_acquired [OF _ assms] by blast
  have acquires: "free F = obj # rest \<and> obj_sz qhdl = Some n \<and>
      obj < length (objs F) \<and> unat n \<le> length (objs F ! obj) \<and> unat n \<le> length data \<and>
      length (mbx F) < mbsize F \<longrightarrow>
        osal_queue_send cf qhdl data False st =
          Returns False
            (put_fifo f
               (F\<lparr>free := rest,
                  objs := (objs F)[obj := take (unat n) data @ drop (unat n) (objs F ! obj)],
                  mbx := mbx F @ [obj]\<rparr>) st)"
    using send_thread_acquires [OF assms, of n obj rest data cf] by blast
  have given_back: "free F = [] \<and> obj_sz qhdl = Some n \<and> chFifoReturnObject f slot st = Returns () sr \<and>
      slot < length (objs F) \<and> unat n \<le> length (objs F ! slot) \<and> unat n \<le> length data \<and>
      length (mbx F) < mbsize F \<longrightarrow>
        fifos sr f = Some (F\<lparr>free := [slot]\<rparr>) \<and>
        osal_queue_send cf qhdl data False sr =
          Returns False
            (put_fifo f
               (F\<lparr>free := [],
                  objs := (objs F)[slot := take (unat n) data @ drop (unat n) (objs F ! slot)],
                  mbx := mbx F @ [slot]\<rparr>) sr)"
    using send_thread_after_return [OF assms, of n slot sr data cf] by blast
  from waits no_failure isr_fails acquired acquires given_back show ?thesis by (intro conjI)
qed

theorem osal_queue_send_thread_waits_for_slot_witness:
  "fifo queue_4x2 = Some 300
   \<and> osal_queue_create queue_def_4x2 boot = Returns \<lparr>obj_sz = None, fifo = Some 300\<rparr> fresh_4x2
   \<and> map_option free (fifos fresh_4x2 300) = Some [3, 2, 1, 0]
   \<and> osal_queue_send chconf32 queue_4x2 [1, 0] False fresh_4x2 = Returns False one_sent_4x2
   \<and> map_option free (fifos one_sent_4x2 300) = Some [2, 1, 0]
   \<and> map_option (\<lambda>F. objs F ! 3) (fifos one_sent_4x2 300) = Some [1, 0]
   \<and> map_option mbx (fifos one_sent_4x2 300) = Some [3]
   \<and> sends chconf32 queue_4x2 [([1, 0], False), ([2, 0], False), ([3, 0], True), ([4, 0], True)]
        (fresh_4x2\<lparr>cells := [900 \<mapsto> None]\<rparr>) = Some (full_4x2\<lparr>cells := [900 \<mapsto> None]\<rparr>)
   \<and> map_option free (fifos (full_4x2\<lparr>cells := [900 \<mapsto> None]\<rparr>) 300) = Some []
   \<and> osal_queue_send chconf32 queue_4x2 [5, 0] False (full_4x2\<lparr>cells := [900 \<mapsto> None]\<rparr>)
        = Suspended
   \<and> osal_queue_send chconf32 queue_4x2 [5, 0] True (full_4x2\<lparr>cells := [900 \<mapsto> None]\<rparr>)
        = Returns True (full_4x2\<lparr>cells := [900 \<mapsto> None]\<rparr>)
   \<and> chFifoReceiveObjectTimeout chconf32 300 900 (TIME_INFINITE chconf32)
        (full_4x2\<lparr>cells := [900 \<mapsto> None]\<rparr>) = Returns MSG_OK draining_4x2
   \<and> osal_queue_send chconf32 queue_4x2 [5, 0] False draining_4x2 = Suspended
   \<and> chFifoReturnObject 300 3 draining_4x2 = Returns () returned_4x2
   \<and> osal_queue_send chconf32 queue_4x2 [5, 0] False returned_4x2 = Returns False refilled_4x2
   \<and> map_option (\<lambda>F. objs F ! 3) (fifos refilled_4x2 300) = Some [5, 0]
   \<and> map_option mbx (fifos refilled_4x2 300) = Some [2, 1, 0, 3]"
proof -
  let ?fresh = "\<lparr>objsize = 2, pool_buf = 100, mbx_buf = 200,
      objs = [[0, 0], [0, 0], [0, 0], [0, 0]], free = [3, 2, 1, 0], mbx = [], mbsize = 4\<rparr>"
  let ?full = "\<lparr>objsize = 2, pool_buf = 100, mbx_buf = 200,
      objs = [[4, 0], [3, 0], [2, 0], [1, 0]], free = [], mbx = [3, 2, 1, 0], mbsize = 4\<rparr>"
  let ?draining = "\<lparr>objsize = 2, pool_buf = 100, mbx_buf = 200,
      objs = [[4, 0], [3, 0], [2, 0], [1, 0]], free = [], mbx = [2, 1, 0], mbsize = 4\<rparr>"
  have q: "fifo queue_4x2 = Some 300" "obj_sz queue_4x2 = Some 2"
    by (simp_all add: queue_4x2_def)
  have fresh: "fifos fresh_4x2 300 = Some ?fresh"
    and full: "fifos (full_4x2\<lparr>cells := [900 \<mapsto> None]\<rparr>) 300 = Some ?full"
    and draining: "fifos draining_4x2 300 = Some ?draining"
    by (simp_all add: states_4x2)
  note at_fresh = osal_queue_send_thread_waits_for_slot
      [OF q(1) fresh, where cf = chconf32 and data = "[1, 0]" and n = 2 and obj = 3
         and rest = "[2, 1, 0]"]
  note at_full = osal_queue_send_thread_waits_for_slot
      [OF q(1) full, where cf = chconf32 and data = "[5, 0]"]
  note at_draining = osal_queue_send_thread_waits_for_slot
      [OF q(1) draining, where cf = chconf32 and data = "[5, 0]" and n = 2 and slot = 3
         and sr = returned_4x2]
  have "free ?fresh = 3 # [2, 1, 0] \<and> obj_sz queue_4x2 = Some 2 \<and>
      3 < length (objs ?fresh) \<and> unat (2 :: 16 word) \<le> length (objs ?fresh ! 3) \<and>
      unat (2 :: 16 word) \<le> length [1 :: byte, 0] \<and> length (mbx ?fresh) < mbsize ?fresh"
    by (simp add: q)
  from at_fresh [THEN conjunct2, THEN conjunct2, THEN conjunct2, THEN conjunct2,
      THEN conjunct1, THEN mp, OF this]
  have first: "osal_queue_send chconf32 queue_4x2 [1, 0] False fresh_4x2 = Returns False one_sent_4x2"
    by (simp add: states_4x2 put_fifo_def)
  have "free ?full = []" by simp
  from at_full [THEN conjunct1, THEN mp, OF this]
    at_full [THEN conjunct2, THEN conjunct2, THEN conjunct1, THEN mp, OF this]
  have blocked:
    "osal_queue_send chconf32 queue_4x2 [5, 0] False (full_4x2\<lparr>cells := [900 \<mapsto> None]\<rparr>)
       = Suspended"
    "osal_queue_send chconf32 queue_4x2 [5, 0] True (full_4x2\<lparr>cells := [900 \<mapsto> None]\<rparr>)
       = Returns True (full_4x2\<lparr>cells := [900 \<mapsto> None]\<rparr>)"
    by (simp_all add: states_4x2)
  have "free ?draining = []" by simp
  from at_draining [THEN conjunct1, THEN mp, OF this]
  have still_blocked: "osal_queue_send chconf32 queue_4x2 [5, 0] False draining_4x2 = Suspended" .
  have "free ?draining = [] \<and> obj_sz queue_4x2 = Some 2 \<and>
      chFifoReturnObject 300 3 draining_4x2 = Returns () returned_4x2 \<and>
      3 < length (objs ?draining) \<and> unat (2 :: 16 word) \<le> length (objs ?draining ! 3) \<and>
      unat (2 :: 16 word) \<le> length [5 :: byte, 0] \<and> length (mbx ?draining) < mbsize ?draining"
    by (simp add: q return_draining_4x2)
  from at_draining [THEN conjunct2, THEN conjunct2, THEN conjunct2, THEN conjunct2,
      THEN conjunct2, THEN mp, OF this, THEN conjunct2]
  have resumed:
    "osal_queue_send chconf32 queue_4x2 [5, 0] False returned_4x2 = Returns False refilled_4x2"
    by (simp add: states_4x2 put_fifo_def)
  have shapes:
    "map_option free (fifos fresh_4x2 300) = Some [3, 2, 1, 0]"
    "map_option free (fifos one_sent_4x2 300) = Some [2, 1, 0]"
    "map_option (\<lambda>F. objs F ! 3) (fifos one_sent_4x2 300) = Some [1, 0]"
    "map_option mbx (fifos one_sent_4x2 300) = Some [3]"
    "map_option free (fifos (full_4x2\<lparr>cells := [900 \<mapsto> None]\<rparr>) 300) = Some []"
    "map_option (\<lambda>F. objs F ! 3) (fifos refilled_4x2 300) = Some [5, 0]"
    "map_option mbx (fifos refilled_4x2 300) = Some [2, 1, 0, 3]"
    by (simp_all add: states_4x2)
  from q(1) osal_queue_create_4x2 first blocked still_blocked resumed shapes
    fetch_full_4x2 return_draining_4x2 sends_cells [OF sends_four_4x2, of "[900 \<mapsto> None]"]
  show ?thesis by (intro conjI)
qed

text \<open>
  Claim C3: an interrupt-context send returns \<open>failed = true\<close> exactly when the pool has
  no free slot, and it never blocks; after as many successful sends as the queue is deep,
  counted from its creation and with no receive in between, the next interrupt-context
  send returns \<open>failed = true\<close>.
\<close>

theorem osal_queue_send_isr_fails_iff_exhausted:
  "(fifo qhdl = Some f \<and> fifos st f = Some F \<and> fifo_ok F \<and> obj_sz qhdl = Some n \<and>
    unat n \<le> objsize F \<and> unat n \<le> length data \<longrightarrow>
      (\<exists>st'. osal_queue_send cf qhdl data True st = Returns (free F = []) st'))
   \<and> osal_queue_send cf qhdl data True st \<noteq> Suspended
   \<and> (osal_queue_create qdef sa = Returns qa sb \<and> q = qa\<lparr>obj_sz := Some sz\<rparr> \<and>
      sends cf q xs sb = Some sc \<and> length xs = unat (depth qdef) \<longrightarrow>
        osal_queue_send cf q data True sc = Returns True (sc\<lparr>syslocked := False\<rparr>))"
  using send_isr_returns [of qhdl f st F n data cf] send_isr_never_suspends [of cf qhdl data st]
    send_after_depth_sends [of qdef sa qa sb q sz cf xs sc data]
  by blast

theorem osal_queue_send_isr_fails_iff_exhausted_witness:
  "fifo queue_4x2 = Some 300
   \<and> map_option fifo_ok (fifos fresh_4x2 300) = Some True
   \<and> map_option free (fifos fresh_4x2 300) = Some [3, 2, 1, 0]
   \<and> (\<exists>st'. osal_queue_send chconf32 queue_4x2 [1, 0] True fresh_4x2 = Returns False st')
   \<and> osal_queue_create queue_def_4x2 boot = Returns \<lparr>obj_sz = None, fifo = Some 300\<rparr> fresh_4x2
   \<and> sends chconf32 queue_4x2 [([1, 0], False), ([2, 0], False), ([3, 0], True), ([4, 0], True)]
        fresh_4x2 = Some full_4x2
   \<and> osal_queue_send chconf32 queue_4x2 [5, 0] True full_4x2 = Returns True full_4x2"
  using osal_queue_send_isr_fails_iff_exhausted
    [where qhdl = queue_4x2 and f = 300 and st = fresh_4x2 and cf = chconf32
       and data = "[1, 0]" and n = 2
       and F = "\<lparr>objsize = 2, pool_buf = 100, mbx_buf = 200,
                 objs = [[0, 0], [0, 0], [0, 0], [0, 0]], free = [3, 2, 1, 0], mbx = [],
                 mbsize = 4\<rparr>"
       and qdef = queue_def_4x2 and sa = boot and qa = "\<lparr>obj_sz = None, fifo = Some 300\<rparr>"
       and sb = fresh_4x2 and q = queue_4x2 and sz = 2
       and xs = "[([1, 0], False), ([2, 0], False), ([3, 0], True), ([4, 0], True)]"
       and sc = full_4x2]
    osal_queue_send_isr_fails_iff_exhausted
    [where cf = chconf32 and data = "[5, 0]"
       and qdef = queue_def_4x2 and sa = boot and qa = "\<lparr>obj_sz = None, fifo = Some 300\<rparr>"
       and sb = fresh_4x2 and q = queue_4x2 and sz = 2
       and xs = "[([1, 0], False), ([2, 0], False), ([3, 0], True), ([4, 0], True)]"
       and sc = full_4x2]
    osal_queue_create_4x2 sends_four_4x2
  by (simp add: states_4x2 fifo_ok_def)

text \<open>
  Claim C4: a successful send of a payload followed by a successful receive leaves a copy
  of the payload in the receiver's buffer. The code does not do this:
  \<^verbatim>\<open>osal_queue_receive\<close> hands the kernel the pointer \<open>objpp\<close>, which it has
  declared and never set, so no receive succeeds. After the thread-context send of the
  bytes 1, 0 on the fresh queue, which returns \<open>failed = false\<close> and leaves the object
  enqueued, the receive has no defined behaviour.
\<close>

theorem osal_queue_receive_after_send:
  "osal_queue_send chconf32 queue_4x2 [1, 0] False fresh_4x2 = Returns False one_sent_4x2
   \<and> map_option mbx (fifos one_sent_4x2 300) = Some [3]
   \<and> map_option (\<lambda>F. objs F ! 3) (fifos one_sent_4x2 300) = Some [1, 0]
   \<and> osal_queue_receive chconf32 queue_4x2 [0, 0] one_sent_4x2 = Fault Indeterminate_Value"
  using send_first_4x2 osal_queue_receive_faults [of chconf32 queue_4x2 "[0, 0]" one_sent_4x2]
  by (simp add: states_4x2)

text \<open>
  Claim C5: two objects sent one after the other, with no receive in between, are
  received in the order of their sending. The code does not do this, for the reason given
  at C4: after the sends of A = 1, 0 and B = 2, 0 the mailbox holds their slots in this
  order, and the receive that should yield A has no defined behaviour.
\<close>

theorem osal_queue_receive_after_two_sends:
  "sends chconf32 queue_4x2 [([1, 0], False), ([2, 0], False)] fresh_4x2 = Some two_sent_4x2
   \<and> map_option mbx (fifos two_sent_4x2 300) = Some [3, 2]
   \<and> map_option (\<lambda>F. map (\<lambda>obj. objs F ! obj) (mbx F)) (fifos two_sent_4x2 300)
       = Some [[1, 0], [2, 0]]
   \<and> osal_queue_receive chconf32 queue_4x2 [0, 0] two_sent_4x2 = Fault Indeterminate_Value"
  using sends_two_4x2 osal_queue_receive_faults [of chconf32 queue_4x2 "[0, 0]" two_sent_4x2]
  by (simp add: states_4x2)

text \<open>
  Claim C6: \<^verbatim>\<open>osal_mutex_create\<close> initialises the descriptor's semaphore with capacity 1
  and returns the handle of capacity 1 that refers to it, as \<^verbatim>\<open>osal_semaphore_create\<close>
  does for a descriptor of size 1. The code does not do this: it stores the reference in
  \<open>s\<close> and passes the unset \<open>m.sem\<close> to the kernel. On the descriptor of size 5 at
  address 7 the call has no defined behaviour, where the semaphore's create on size 1
  returns the handle and leaves the count 1.
\<close>

theorem osal_mutex_create_unset_reference:
  "osal_mutex_create \<lparr>def_size = 5, def_sem = 7\<rparr> boot = Fault Indeterminate_Value
   \<and> osal_semaphore_create \<lparr>def_size = 1, def_sem = 7\<rparr> boot =
       Returns \<lparr>hdl_size = Some 1, hdl_sem = Some 7\<rparr> (boot\<lparr>sems := [7 \<mapsto> \<lparr>cnt = 1\<rparr>]\<rparr>)"
  by (simp add: osal_mutex_create_def osal_semaphore_create_def chSemObjectInit_def boot_def)

text \<open>
  Claim C7: \<^verbatim>\<open>osal_mutex_lock\<close> has the result and the effect of
  \<^verbatim>\<open>osal_semaphore_wait\<close> for every handle and timeout. The code does not do this where
  the kernel's intervals are wider than the 32 bits of the lock's local: with 64-bit
  intervals, the wait-forever sentinel and a semaphore whose count is 0 and that nobody
  signals, the wait never returns, and the lock waits for \<open>2^32 - 1\<close> ticks and returns
  \<open>timed_out = true\<close>.
\<close>

theorem osal_mutex_lock_truncates_interval:
  "osal_semaphore_wait chconf64 \<lparr>hdl_size = Some 1, hdl_sem = Some 7\<rparr> 4294967295 Quiet
     (boot\<lparr>sems := [7 \<mapsto> \<lparr>cnt = 0\<rparr>]\<rparr>) = Suspended
   \<and> osal_mutex_lock chconf64 \<lparr>hdl_size = Some 1, hdl_sem = Some 7\<rparr> 4294967295 Quiet
     (boot\<lparr>sems := [7 \<mapsto> \<lparr>cnt = 0\<rparr>]\<rparr>) = Returns True (boot\<lparr>sems := [7 \<mapsto> \<lparr>cnt = 0\<rparr>]\<rparr>)"
  by (simp add: osal_mutex_lock_def osal_semaphore_wait_def chSemWaitTimeout_def chconf64_def
      boot_def MSG_TIMEOUT_def)

text \<open>
  Claim C8: \<^verbatim>\<open>osal_semaphore_wait\<close> waits on the handle's semaphore with the kernel's
  infinite timeout when the timeout is the wait-forever sentinel and with the
  millisecond-to-tick conversion of the timeout otherwise, and it returns true exactly
  when the kernel's wait ends with a timeout or a reset and false exactly when the count
  was taken: at once when it is positive, or on a signal while the caller waits. With the
  sentinel and no wake-up it does not return.
\<close>

theorem osal_semaphore_wait_contract:
  assumes "hdl_sem sem_hdl = Some p"
  shows "osal_semaphore_wait cf sem_hdl msec env st =
           and_then (chSemWaitTimeout cf p
                       (if msec = OSAL_TIMEOUT_WAIT_FOREVER cf then TIME_INFINITE cf
                        else TIME_MS2I cf msec) env st)
             (\<lambda>msg st'. Returns (msg = MSG_TIMEOUT \<or> msg = MSG_RESET) st')
         \<and> (\<forall>s. sems st p = Some s \<and> 0 < cnt s \<longrightarrow>
               osal_semaphore_wait cf sem_hdl msec env st =
                 Returns False (st\<lparr>sems := (sems st)(p \<mapsto> s\<lparr>cnt := cnt s - 1\<rparr>)\<rparr>))
         \<and> (\<forall>s. sems st p = Some s \<and> cnt s \<le> 0 \<and> env = Signalled \<longrightarrow>
               osal_semaphore_wait cf sem_hdl msec env st = Returns False st)
         \<and> (\<forall>s n. sems st p = Some s \<and> cnt s \<le> 0 \<and> env = Reset_To n \<longrightarrow>
               osal_semaphore_wait cf sem_hdl msec env st =
                 Returns True (st\<lparr>sems := (sems st)(p \<mapsto> s\<lparr>cnt := n\<rparr>)\<rparr>))
         \<and> (\<forall>s. sems st p = Some s \<and> cnt s \<le> 0 \<and> env = Quiet \<and>
                  msec \<noteq> OSAL_TIMEOUT_WAIT_FOREVER cf \<and> TIME_MS2I cf msec \<noteq> TIME_INFINITE cf \<longrightarrow>
               osal_semaphore_wait cf sem_hdl msec env st = Returns True st)
         \<and> (\<forall>s. sems st p = Some s \<and> cnt s \<le> 0 \<and> env = Quiet \<and>
                  msec = OSAL_TIMEOUT_WAIT_FOREVER cf \<longrightarrow>
               osal_semaphore_wait cf sem_hdl msec env st = Suspended)"
  using assms
  by (auto simp add: osal_semaphore_wait_def chSemWaitTimeout_def msg_defs
      split: option.splits wakeup.splits)

theorem osal_semaphore_wait_contract_witness:
  "hdl_sem \<lparr>hdl_size = Some 1, hdl_sem = Some 7\<rparr> = Some 7
   \<and> osal_semaphore_wait chconf32 \<lparr>hdl_size = Some 1, hdl_sem = Some 7\<rparr> 10 Quiet
       (boot\<lparr>sems := [7 \<mapsto> \<lparr>cnt = 1\<rparr>]\<rparr>) = Returns False (boot\<lparr>sems := [7 \<mapsto> \<lparr>cnt = 0\<rparr>]\<rparr>)
   \<and> osal_semaphore_wait chconf32 \<lparr>hdl_size = Some 1, hdl_sem = Some 7\<rparr> 10 Quiet
       (boot\<lparr>sems := [7 \<mapsto> \<lparr>cnt = 0\<rparr>]\<rparr>) = Returns True (boot\<lparr>sems := [7 \<mapsto> \<lparr>cnt = 0\<rparr>]\<rparr>)
   \<and> osal_semaphore_wait chconf32 \<lparr>hdl_size = Some 1, hdl_sem = Some 7\<rparr> 10 (Reset_To 1)
       (boot\<lparr>sems := [7 \<mapsto> \<lparr>cnt = 0\<rparr>]\<rparr>) = Returns True (boot\<lparr>sems := [7 \<mapsto> \<lparr>cnt = 1\<rparr>]\<rparr>)
   \<and> osal_semaphore_wait chconf32 \<lparr>hdl_size = Some 1, hdl_sem = Some 7\<rparr> 4294967295 Signalled
       (boot\<lparr>sems := [7 \<mapsto> \<lparr>cnt = 0\<rparr>]\<rparr>) = Returns False (boot\<lparr>sems := [7 \<mapsto> \<lparr>cnt = 0\<rparr>]\<rparr>)
   \<and> osal_semaphore_wait chconf32 \<lparr>hdl_size = Some 1, hdl_sem = Some 7\<rparr> 4294967295 Quiet
       (boot\<lparr>sems := [7 \<mapsto> \<lparr>cnt = 0\<rparr>]\<rparr>) = Suspended"
  using
    osal_semaphore_wait_contract [where sem_hdl = "\<lparr>hdl_size = Some 1, hdl_sem = Some 7\<rparr>"
      and p = 7 and msec = 10 and cf = chconf32 and env = Quiet
      and st = "boot\<lparr>sems := [7 \<mapsto> \<lparr>cnt = 1\<rparr>]\<rparr>"]
    osal_semaphore_wait_contract [where sem_hdl = "\<lparr>hdl_size = Some 1, hdl_sem = Some 7\<rparr>"
      and p = 7 and msec = 10 and cf = chconf32 and env = Quiet
      and st = "boot\<lparr>sems := [7 \<mapsto> \<lparr>cnt = 0\<rparr>]\<rparr>"]
    osal_semaphore_wait_contract [where sem_hdl = "\<lparr>hdl_size = Some 1, hdl_sem = Some 7\<rparr>"
      and p = 7 and msec = 10 and cf = chconf32 and env = "Reset_To 1"
      and st = "boot\<lparr>sems := [7 \<mapsto> \<lparr>cnt = 0\<rparr>]\<rparr>"]
    osal_semaphore_wait_contract [where sem_hdl = "\<lparr>hdl_size = Some 1, hdl_sem = Some 7\<rparr>"
      and p = 7 and msec = 4294967295 and cf = chconf32 and env = Signalled
      and st = "boot\<lparr>sems := [7 \<mapsto> \<lparr>cnt = 0\<rparr>]\<rparr>"]
    osal_semaphore_wait_contract [where sem_hdl = "\<lparr>hdl_size = Some 1, hdl_sem = Some 7\<rparr>"
      and p = 7 and msec = 4294967295 and cf = chconf32 and env = Quiet
      and st = "boot\<lparr>sems := [7 \<mapsto> \<lparr>cnt = 0\<rparr>]\<rparr>"]
  by (auto simp add: chconf32_def boot_def)

text \<open>
  Claim C9: \<^verbatim>\<open>osal_queue_create\<close> initialises the descriptor's control block with
  \<open>depth\<close> slots of \<open>obj_sz\<close> bytes over the descriptor's buffers, and returns a handle
  whose object size is the descriptor's and whose reference is to that control block. The
  code does the first and not the second: it returns the address of the control block
  alone. On the descriptor of depth 4 and object size 2 the handle that comes back has no
  object size, and a send through it has no defined behaviour.
\<close>

theorem osal_queue_create_handle_without_size:
  "osal_queue_create queue_def_4x2 boot = Returns \<lparr>obj_sz = None, fifo = Some 300\<rparr> fresh_4x2
   \<and> fifos fresh_4x2 (def_fifo queue_def_4x2) =
       Some \<lparr>objsize = 2, pool_buf = objbuf queue_def_4x2, mbx_buf = msgbuf queue_def_4x2,
             objs = [[0, 0], [0, 0], [0, 0], [0, 0]], free = [3, 2, 1, 0], mbx = [],
             mbsize = 4\<rparr>
   \<and> osal_queue_send chconf32 \<lparr>obj_sz = None, fifo = Some 300\<rparr> [1, 0] True fresh_4x2
       = Fault Indeterminate_Value
   \<and> osal_queue_send chconf32 \<lparr>obj_sz = None, fifo = Some 300\<rparr> [1, 0] False fresh_4x2
       = Fault Indeterminate_Value"
  using osal_queue_create_4x2
  by (simp add: send_defs states_4x2 chconf32_def)

text \<open>
  Claim C10: an interrupt-context send that finds no free slot returns true and leaves the
  queue as it was: the state after the call is the state before it with the system lock
  released, so no byte of the payload is copied, no slot taken and nothing enqueued. The
  same holds of every interrupt-context send that returns true.
\<close>

theorem osal_queue_send_isr_failure_changes_nothing:
  assumes "fifo qhdl = Some f" "fifos st f = Some F" "free F = []"
  shows "osal_queue_send cf qhdl data True st = Returns True (st\<lparr>syslocked := False\<rparr>)
    \<and> fifos (st\<lparr>syslocked := False\<rparr>) = fifos st
    \<and> (\<not> syslocked st \<longrightarrow> st\<lparr>syslocked := False\<rparr> = st)
    \<and> (\<forall>s s'. osal_queue_send cf qhdl data True s = Returns True s' \<longrightarrow>
          s' = s\<lparr>syslocked := False\<rparr>)"
  using send_isr_exhausted [OF assms] send_isr_failed
  by auto

theorem osal_queue_send_isr_failure_changes_nothing_witness:
  "fifo queue_4x2 = Some 300
   \<and> map_option free (fifos full_4x2 300) = Some []
   \<and> osal_queue_send chconf32 queue_4x2 [5, 0] True full_4x2 = Returns True full_4x2"
  using osal_queue_send_isr_failure_changes_nothing
    [where qhdl = queue_4x2 and f = 300 and st = full_4x2 and cf = chconf32
       and data = "[5, 0]"
       and F = "\<lparr>objsize = 2, pool_buf = 100, mbx_buf = 200,
                 objs = [[4, 0], [3, 0], [2, 0], [1, 0]], free = [], mbx = [3, 2, 1, 0],
                 mbsize = 4\<rparr>"]
  by (simp add: states_4x2)

end
